theory Spec2Isabelle
  imports Complex_Main "HOL-Library.Word" "HOL-Library.Sublist"
begin

section \<open>Scrybe: a shallow embedding of the client's components\<close>

text \<open>
  The repository is a React front-end.  Every component is embedded as a record of
  the values it holds (its \<open>useState\<close> cells and \<open>useRef\<close> boxes) together with the
  observable calls it makes to its surroundings (callbacks to the parent, \<open>alert\<close>,
  canvas painting, calls to the platform), which are appended to lists in the same
  record.  Every handler is a function from the record to the updated record.
  A value that a handler reads from the render it was created in (a \<open>const\<close> of the
  component function's body) is read from the record the handler is applied to; where
  a handler keeps running after the state has been updated, the captured value is
  passed on explicitly.
\<close>

subsection \<open>Platform data: blobs and files\<close>

type_synonym byte = "8 word"

text \<open>
  A \<open>Blob\<close> is its byte payload and its declared media type; a \<open>File\<close> is a blob
  with a name.
\<close>

record Blob =
  bytes :: "byte list"
  type :: string

record File = Blob +
  name :: string

definition size_of :: "'a Blob_scheme \<Rightarrow> nat" where
  "size_of b = length (bytes b)"

text \<open>
  The constructor \<open>new Blob(parts, {type: t})\<close> concatenates the parts.  The platform
  does not keep every type as it is given: a type with a character outside the range
  U+0020 to U+007E becomes the empty string, and any other type is put in ASCII lower
  case.
\<close>

definition in_printable_range :: "char \<Rightarrow> bool" where
  "in_printable_range c = (32 \<le> (of_char c :: nat) \<and> (of_char c :: nat) \<le> 126)"

definition ascii_lowercase :: "char \<Rightarrow> char" where
  "ascii_lowercase c =
     (case map_of (zip ''ABCDEFGHIJKLMNOPQRSTUVWXYZ'' ''abcdefghijklmnopqrstuvwxyz'') c of
        None \<Rightarrow> c
      | Some l \<Rightarrow> l)"

definition normalize_type :: "string \<Rightarrow> string" where
  "normalize_type t = (if list_all in_printable_range t then map ascii_lowercase t else [])"

definition new_Blob :: "Blob list \<Rightarrow> string \<Rightarrow> Blob" where
  "new_Blob parts t = \<lparr>bytes = concat (map bytes parts), type = normalize_type t\<rparr>"

text \<open>
  A type that the constructor keeps as it is: every character is in the range and none
  is an upper-case letter.  The media types that recorders report are of this kind.
\<close>

definition plain_type :: "string \<Rightarrow> bool" where
  "plain_type t =
     list_all (\<lambda>c. in_printable_range c \<and> c \<notin> set ''ABCDEFGHIJKLMNOPQRSTUVWXYZ'') t"

text \<open>\<open>String.prototype.startsWith\<close>.\<close>

definition startsWith :: "string \<Rightarrow> string \<Rightarrow> bool" where
  "startsWith s p = (take (length p) s = p)"

text \<open>A JavaScript \<open>Error\<close>, reduced to its message.\<close>

datatype Error = Error (message: string)

subsection \<open>File intake (FileUploader.tsx)\<close>

text \<open>
  The state cells \<open>dragActive\<close> and \<open>selectedFile\<close>; the calls made to the props
  \<open>onFileSelected\<close> and \<open>onClear\<close>; and the messages passed to \<open>alert\<close>.
\<close>

record FileUploader =
  dragActive :: bool
  selectedFile :: "File option"
  onFileSelected_calls :: "File list"
  onClear_calls :: nat
  alerts :: "string list"

definition FileUploader_init :: FileUploader where
  "FileUploader_init =
     \<lparr>dragActive = False, selectedFile = None, onFileSelected_calls = [],
      onClear_calls = 0, alerts = []\<rparr>"

text \<open>\<open>handleDrag\<close>, by the type of the drag event.\<close>

definition handleDrag :: "string \<Rightarrow> FileUploader \<Rightarrow> FileUploader" where
  "handleDrag ty u =
     (if ty = ''dragenter'' \<or> ty = ''dragover'' then u\<lparr>dragActive := True\<rparr>
      else if ty = ''dragleave'' then u\<lparr>dragActive := False\<rparr>
      else u)"

text \<open>
  \<open>handleDrop\<close>, applied to \<open>e.dataTransfer.files\<close>: only the first file is looked at,
  and it is handed on only when its type starts with \<open>audio/\<close>.
\<close>

definition handleDrop :: "File list \<Rightarrow> FileUploader \<Rightarrow> FileUploader" where
  "handleDrop files u =
     (let u1 = u\<lparr>dragActive := False\<rparr> in
      case files of
        [] \<Rightarrow> u1
      | file # _ \<Rightarrow>
          if startsWith (Blob.type file) ''audio/''
          then u1\<lparr>selectedFile := Some file,
                  onFileSelected_calls := onFileSelected_calls u1 @ [file]\<rparr>
          else u1\<lparr>alerts := alerts u1 @ [''Please upload a valid audio file.'']\<rparr>)"

text \<open>
  \<open>handleChange\<close>, applied to \<open>e.target.files\<close> of the file input: the first file is
  stored and handed on; its type is not looked at.
\<close>

definition handleChange :: "File list \<Rightarrow> FileUploader \<Rightarrow> FileUploader" where
  "handleChange files u =
     (case files of
        [] \<Rightarrow> u
      | file # _ \<Rightarrow>
          u\<lparr>selectedFile := Some file,
            onFileSelected_calls := onFileSelected_calls u @ [file]\<rparr>)"

definition handleRemove :: "FileUploader \<Rightarrow> FileUploader" where
  "handleRemove u = u\<lparr>selectedFile := None, onClear_calls := Suc (onClear_calls u)\<rparr>"

subsection \<open>Transcription client (geminiService)\<close>

text \<open>
  A JavaScript number that holds an integer, converted to a string as a template
  literal does (decimal digits, a minus sign when negative).
\<close>

fun digits :: "nat \<Rightarrow> string" where
  "digits n =
     (if n < 10 then [''0123456789'' ! n]
      else digits (n div 10) @ [''0123456789'' ! (n mod 10)])"

declare digits.simps [simp del]

definition toString :: "int \<Rightarrow> string" where
  "toString i = (if i < 0 then ''-'' @ digits (nat (- i)) else digits (nat i))"

definition quoted :: "string \<Rightarrow> string" where
  "quoted s = [CHR 0x22] @ s @ [CHR 0x22]"

definition nl :: string where
  "nl = [CHR 0x0A]"

text \<open>The twelve blanks that indent every line of the template literal but the first.\<close>

definition indent :: string where
  "indent = replicate 12 (CHR '' '')"

text \<open>The text part of the request: the template literal, line by line.\<close>

definition instruction :: "int \<Rightarrow> string" where
  "instruction intervalMinutes =
     ''Please transcribe the following audio. '' @ nl @
     indent @ nl @
     indent @ ''IMPORTANT: You must structure the transcript by inserting timestamps approximately every ''
       @ toString intervalMinutes @ '' minutes (or at logical breaks near that interval).'' @ nl @
     indent @ nl @
     indent @ ''Format the timestamps strictly as a header on a new line: '' @ quoted ''## [MM:SS]'' @ ''.'' @ nl @
     indent @ ''Start with '' @ quoted ''## [00:00]'' @ ''.'' @ nl @
     indent @ nl @
     indent @ ''Example output format:'' @ nl @
     indent @ ''## [00:00]'' @ nl @
     indent @ ''(Text for the first segment...)'' @ nl @
     indent @ nl @
     indent @ ''## [0'' @ toString intervalMinutes @ '':00]'' @ nl @
     indent @ ''(Text for the next segment...)'' @ nl @
     indent @ nl @
     indent @ ''If there are distinct speakers, label them as Speaker 1, Speaker 2, etc. Format the text with clear paragraph breaks.''"

record InlineData =
  mimeType :: string
  data :: string

text \<open>The argument of \<open>ai.models.generateContent\<close>: the model and the two parts.\<close>

record GenerateContentParameters =
  model :: string
  inlineData :: InlineData
  text_part :: string

text \<open>
  What \<open>transcribeAudio\<close> is given by its surroundings: the credential read from the
  process environment (\<open>process.env.API_KEY || ''\<close>, so the empty string when none is
  configured), the encoder \<open>blobToBase64\<close> of the audio utilities, which may reject,
  and the remote service, which rejects or answers with a response whose \<open>text\<close> may
  be missing.
\<close>

record Env =
  API_KEY :: string
  blobToBase64 :: "Blob \<Rightarrow> Error + string"
  generateContent :: "GenerateContentParameters \<Rightarrow> Error + string option"

text \<open>What \<open>transcribeAudio\<close> does to its surroundings, in order.\<close>

datatype effect =
    NewClient string
  | Encode Blob
  | Send GenerateContentParameters
  | ConsoleError Error

text \<open>
  \<open>transcribeAudio\<close>: the settled value of the promise (\<open>Inl\<close> a rejection) and the
  effects.  Every rejection raised inside the \<open>try\<close> block is logged and thrown again.
\<close>

definition transcribeAudio ::
  "Env \<Rightarrow> Blob \<Rightarrow> string \<Rightarrow> int \<Rightarrow> (Error + string) \<times> effect list" where
  "transcribeAudio env audioBlob mimeType' intervalMinutes =
     (if API_KEY env = []
      then (Inl (Error ''API Key is missing. Please ensure process.env.API_KEY is set.''), [])
      else
        let fx1 = [NewClient (API_KEY env), Encode audioBlob] in
        case blobToBase64 env audioBlob of
          Inl e \<Rightarrow> (Inl e, fx1 @ [ConsoleError e])
        | Inr base64Data \<Rightarrow>
            let finalMimeType = (if mimeType' = [] then ''audio/mp3'' else mimeType');
                params = \<lparr>model = ''gemini-2.5-flash'',
                          inlineData = \<lparr>mimeType = finalMimeType, data = base64Data\<rparr>,
                          text_part = instruction intervalMinutes\<rparr>;
                fx2 = fx1 @ [Send params]
            in case generateContent env params of
                 Inl e \<Rightarrow> (Inl e, fx2 @ [ConsoleError e])
               | Inr response_text \<Rightarrow>
                   (case response_text of
                      None \<Rightarrow> (Inl (Error ''No transcription generated.''),
                               fx2 @ [ConsoleError (Error ''No transcription generated.'')])
                    | Some t \<Rightarrow>
                        if t = []
                        then (Inl (Error ''No transcription generated.''),
                              fx2 @ [ConsoleError (Error ''No transcription generated.'')])
                        else (Inr t, fx2)))"

text \<open>The requests among a list of effects.\<close>

fun sent :: "effect list \<Rightarrow> GenerateContentParameters list" where
  "sent [] = []"
| "sent (Send p # fx) = p # sent fx"
| "sent (_ # fx) = sent fx"

text \<open>
  For reading the instruction: its lines, each without its leading blanks, and among
  them those that are timestamp headers (they begin with \<open>## [\<close>).  A header is in
  \<open>MM:SS\<close> form when it is \<open>## [\<close>, two digits, a colon, two digits and \<open>]\<close>.
\<close>

fun lines_from :: "string \<Rightarrow> string \<Rightarrow> string list" where
  "lines_from cur [] = [cur]"
| "lines_from cur (c # cs) =
     (if c = CHR 0x0A then cur # lines_from [] cs else lines_from (cur @ [c]) cs)"

definition lines :: "string \<Rightarrow> string list" where
  "lines s = lines_from [] s"

definition header_lines :: "string \<Rightarrow> string list" where
  "header_lines s =
     filter (\<lambda>l. startsWith l ''## ['') (map (dropWhile (\<lambda>c. c = CHR '' '')) (lines s))"

definition is_digit :: "char \<Rightarrow> bool" where
  "is_digit c = (c \<in> set ''0123456789'')"

fun is_MM_SS_header :: "string \<Rightarrow> bool" where
  "is_MM_SS_header [a, b, c, d, m1, m2, col, s1, s2, e] =
     ([a, b, c, d] = ''## ['' \<and> is_digit m1 \<and> is_digit m2 \<and> col = CHR '':'' \<and>
      is_digit s1 \<and> is_digit s2 \<and> e = CHR '']'')"
| "is_MM_SS_header _ = False"

subsection \<open>Presentation shell (App)\<close>

datatype AudioSourceType = MICROPHONE | UPLOAD

text \<open>
  An object URL is a string that the platform makes up, different at every call of
  \<open>URL.createObjectURL\<close> and never empty; only its identity matters here.
\<close>

datatype ObjectURL = ObjectURL nat

text \<open>
  The interface \<open>AudioState\<close> also has an optional \<open>name\<close>, which no code sets; it is
  left out.
\<close>

record AudioState =
  blob :: "Blob option"
  url :: "ObjectURL option"
  type :: "string option"

record TranscriptionState =
  isLoading :: bool
  error :: "string option"
  result :: "string option"

text \<open>
  The five state cells of \<open>App\<close>, and its surroundings: the object URLs that are alive
  (created and not revoked), the counter the platform names the next one from, and the
  calls made to \<open>transcribeAudio\<close>, in order, with their arguments.
\<close>

record App =
  activeTab :: AudioSourceType
  timestampInterval :: int
  isDarkMode :: bool
  audioState :: AudioState
  transcription :: TranscriptionState
  objectURLs :: "ObjectURL list"
  nextObjectURL :: nat
  transcribeAudio_calls :: "(Blob \<times> string \<times> int) list"

definition App_init :: App where
  "App_init =
     \<lparr>activeTab = MICROPHONE, timestampInterval = 2, isDarkMode = True,
      audioState = \<lparr>blob = None, url = None, type = None\<rparr>,
      transcription = \<lparr>isLoading = False, error = None, result = None\<rparr>,
      objectURLs = [], nextObjectURL = 0, transcribeAudio_calls = []\<rparr>"

definition createObjectURL :: "App \<Rightarrow> ObjectURL \<times> App" where
  "createObjectURL a =
     (ObjectURL (nextObjectURL a),
      a\<lparr>objectURLs := objectURLs a @ [ObjectURL (nextObjectURL a)],
        nextObjectURL := Suc (nextObjectURL a)\<rparr>)"

definition revokeObjectURL :: "ObjectURL \<Rightarrow> App \<Rightarrow> App" where
  "revokeObjectURL u a = a\<lparr>objectURLs := removeAll u (objectURLs a)\<rparr>"

definition toggleTheme :: "App \<Rightarrow> App" where
  "toggleTheme a = a\<lparr>isDarkMode := \<not> isDarkMode a\<rparr>"

definition handleAudioReady :: "Blob \<Rightarrow> App \<Rightarrow> App" where
  "handleAudioReady b a =
     (case createObjectURL a of
        (u, a1) \<Rightarrow>
          a1\<lparr>audioState := \<lparr>blob = Some b, url = Some u, type = Some (Blob.type b)\<rparr>,
             transcription := \<lparr>isLoading = False, error = None, result = None\<rparr>\<rparr>)"

definition handleClear :: "App \<Rightarrow> App" where
  "handleClear a =
     (let a1 = (case url (audioState a) of Some u \<Rightarrow> revokeObjectURL u a | None \<Rightarrow> a)
      in a1\<lparr>audioState := \<lparr>blob = None, url = None, type = None\<rparr>,
            transcription := \<lparr>isLoading = False, error = None, result = None\<rparr>\<rparr>)"

text \<open>
  \<open>handleTranscribe\<close> up to its \<open>await\<close>: the guard on the audio state, the loading
  state, and the call of \<open>transcribeAudio\<close>.  A missing blob, a missing type and an
  empty type are the values the guard takes as false.
\<close>

definition handleTranscribe :: "App \<Rightarrow> App" where
  "handleTranscribe a =
     (case blob (audioState a) of
        None \<Rightarrow> a
      | Some b \<Rightarrow>
          (case AudioState.type (audioState a) of
             None \<Rightarrow> a
           | Some t \<Rightarrow>
               if t = [] then a
               else a\<lparr>transcription := \<lparr>isLoading = True, error = None, result = None\<rparr>,
                      transcribeAudio_calls :=
                        transcribeAudio_calls a @ [(b, t, timestampInterval a)]\<rparr>))"

text \<open>
  \<open>handleTranscribe\<close> after its \<open>await\<close>, applied to the settled value of the promise
  that \<open>transcribeAudio\<close> returned.
\<close>

definition handleTranscribe_settled :: "Error + string \<Rightarrow> App \<Rightarrow> App" where
  "handleTranscribe_settled outcome a =
     (case outcome of
        Inr txt \<Rightarrow>
          a\<lparr>transcription := \<lparr>isLoading = False, error = None, result = Some txt\<rparr>\<rparr>
      | Inl e \<Rightarrow>
          a\<lparr>transcription :=
              \<lparr>isLoading = False,
               error = Some (if message e = []
                             then ''An unexpected error occurred during transcription.''
                             else message e),
               result = None\<rparr>\<rparr>)"

text \<open>The two tab buttons: \<open>setActiveTab\<close>, then \<open>handleClear\<close>.\<close>

definition selectTab :: "AudioSourceType \<Rightarrow> App \<Rightarrow> App" where
  "selectTab tab a = handleClear (a\<lparr>activeTab := tab\<rparr>)"

text \<open>
  The submit button: its \<open>disabled\<close> attribute, and a click on it, which reaches
  \<open>handleTranscribe\<close> only when the button is not disabled.
\<close>

definition submit_disabled :: "App \<Rightarrow> bool" where
  "submit_disabled a = (blob (audioState a) = None \<or> isLoading (transcription a))"

definition click_submit :: "App \<Rightarrow> App" where
  "click_submit a = (if submit_disabled a then a else handleTranscribe a)"

text \<open>
  What can happen to \<open>App\<close>: a child hands over audio, a child asks to clear, a tab
  button is clicked, the submit button is clicked, \<open>handleTranscribe\<close> is invoked
  whatever the button says, a request settles, the theme is toggled, the slider moves.
\<close>

datatype event =
    AudioReady Blob
  | ClearInput
  | SelectTab AudioSourceType
  | ClickSubmit
  | InvokeTranscribe
  | Settled "Error + string"
  | ToggleTheme
  | SetTimestampInterval int

fun step :: "App \<Rightarrow> event \<Rightarrow> App" where
  "step a (AudioReady b) = handleAudioReady b a"
| "step a ClearInput = handleClear a"
| "step a (SelectTab tab) = selectTab tab a"
| "step a ClickSubmit = click_submit a"
| "step a InvokeTranscribe = handleTranscribe a"
| "step a (Settled outcome) = handleTranscribe_settled outcome a"
| "step a ToggleTheme = toggleTheme a"
| "step a (SetTimestampInterval n) = a\<lparr>timestampInterval := n\<rparr>"

definition run :: "event list \<Rightarrow> App" where
  "run es = foldl step App_init es"

definition at_most_one :: "TranscriptionState \<Rightarrow> bool" where
  "at_most_one ts = (error ts = None \<or> result ts = None)"

definition both_null :: "TranscriptionState \<Rightarrow> bool" where
  "both_null ts = (error ts = None \<and> result ts = None)"

text \<open>Two recordings, and a state in which a request for the first is in flight.\<close>

definition clip1 :: Blob where
  "clip1 = \<lparr>bytes = [1, 2, 3], type = ''audio/wav''\<rparr>"

definition clip2 :: Blob where
  "clip2 = \<lparr>bytes = [4, 5], type = ''audio/webm''\<rparr>"

definition App_loading :: App where
  "App_loading = run [AudioReady clip1, ClickSubmit]"

subsection \<open>Capture engine and visualizer (AudioRecorder.tsx)\<close>

datatype MediaStream = MediaStream nat

datatype ContextState = Running | Closed

record AnalyserNode =
  fftSize :: nat
  frequencyBinCount :: nat

text \<open>
  A \<open>MediaRecorder\<close>: the \<open>mimeType\<close> it reports, the options it was created with
  (\<open>None\<close> for \<open>undefined\<close>), and what its \<open>onstop\<close> handler has captured from the call
  of \<open>startRecording\<close> that created it.
\<close>

record MediaRecorder =
  mimeType :: string
  options :: "string option"
  onstop_selectedMimeType :: string
  onstop_stream :: MediaStream

record Canvas =
  width :: rat
  height :: rat
  has_2d_context :: bool

text \<open>
  What is painted: \<open>fillRect\<close> with the fill style in force, which is a colour or a
  linear gradient (its two end points and its colour stops).  Coordinates are rationals:
  the halves, and the bar width \<open>(width / bufferLength) * 2.5\<close>, are taken exactly.
\<close>

datatype fillStyle =
    Color string
  | LinearGradient rat rat rat rat "(rat \<times> string) list"

datatype paint = FillRect fillStyle rat rat rat rat

text \<open>
  One animation frame, as the page has it when \<open>draw\<close> runs: whether the document has
  the class \<open>dark\<close>, and the magnitude the analyser gives for every frequency bin.
\<close>

record Frame =
  isDark :: bool
  magnitude :: "nat \<Rightarrow> byte"

text \<open>What the function \<open>draw\<close> has captured when \<open>drawVisualizer\<close> creates it.\<close>

record DrawClosure =
  draw_isRecording :: bool
  draw_canvas :: Canvas
  draw_bufferLength :: nat

text \<open>
  The state cells and ref boxes of \<open>AudioRecorder\<close>, and its surroundings: the callback
  that waits for the next animation frame, the frames painted, the calls of the props,
  the alerts and logged errors, the streams whose tracks were stopped, the object URLs
  alive, the running interval timers, the counter the platform takes handles from, and
  the number of calls of the recorder's \<open>stop()\<close>.
\<close>

record Recorder =
  isRecording :: bool
  duration :: nat
  audioUrl :: "ObjectURL option"
  isPlaying :: bool
  mediaRecorderRef :: "MediaRecorder option"
  chunksRef :: "Blob list"
  timerRef :: "nat option"
  canvasRef :: "Canvas option"
  animationFrameRef :: "nat option"
  audioContextRef :: "ContextState option"
  analyserRef :: "AnalyserNode option"
  pendingFrame :: "DrawClosure option"
  painted :: "paint list list"
  onAudioReady_calls :: "Blob list"
  recorder_onClear_calls :: nat
  recorder_alerts :: "string list"
  console_errors :: "Error list"
  stopped_streams :: "MediaStream list"
  recorder_objectURLs :: "ObjectURL list"
  intervals :: "nat list"
  next_handle :: nat
  stop_calls :: nat

definition Recorder_init :: Recorder where
  "Recorder_init =
     \<lparr>isRecording = False, duration = 0, audioUrl = None, isPlaying = False,
      mediaRecorderRef = None, chunksRef = [], timerRef = None, canvasRef = None,
      animationFrameRef = None, audioContextRef = None, analyserRef = None,
      pendingFrame = None, painted = [], onAudioReady_calls = [],
      recorder_onClear_calls = 0, recorder_alerts = [], console_errors = [],
      stopped_streams = [], recorder_objectURLs = [], intervals = [], next_handle = 1,
      stop_calls = 0\<rparr>"

text \<open>
  What \<open>startRecording\<close> meets: the outcome of \<open>getUserMedia\<close>, the answers of
  \<open>MediaRecorder.isTypeSupported\<close>, the \<open>mimeType\<close> that a recorder created with given
  options reports, what \<open>canvasRef.current\<close> holds when \<open>drawVisualizer\<close> is reached
  (the canvas is rendered only while \<open>isRecording\<close> is true, so this is whether the page
  has been rendered again by then), and the frame at that moment.  The other platform
  calls inside the \<open>try\<close> block are taken to succeed.
\<close>

record Platform =
  getUserMedia :: "Error + MediaStream"
  isTypeSupported :: "string \<Rightarrow> bool"
  recorder_mimeType :: "string option \<Rightarrow> string"
  canvas_at_draw :: "Canvas option"
  frame_at_draw :: Frame

definition mimeTypes :: "string list" where
  "mimeTypes =
     [''audio/webm;codecs=opus'', ''audio/webm'', ''audio/mp4'', ''audio/aac'', ''audio/ogg'']"

text \<open>The \<open>for\<close> loop with its \<open>break\<close>, started with \<open>selectedMimeType = ''\<close>.\<close>

fun select_loop :: "(string \<Rightarrow> bool) \<Rightarrow> string list \<Rightarrow> string \<Rightarrow> string" where
  "select_loop supported [] selected = selected"
| "select_loop supported (t # ts) selected =
     (if supported t then t else select_loop supported ts selected)"

definition selectedMimeType :: "Platform \<Rightarrow> string" where
  "selectedMimeType plat = select_loop (isTypeSupported plat) mimeTypes []"

definition recorder_options :: "string \<Rightarrow> string option" where
  "recorder_options selected = (if selected = [] then None else Some selected)"

text \<open>The bars of one frame: the \<open>for\<close> loop over the bins, with \<open>x\<close> running.\<close>

definition gradient_stops :: "bool \<Rightarrow> (rat \<times> string) list" where
  "gradient_stops dark =
     (if dark then [(0, ''#38bdf8''), (1, ''#3b82f6'')]
      else [(0, ''#6366f1''), (1, ''#4f46e5'')])"

fun bars :: "Canvas \<Rightarrow> bool \<Rightarrow> rat \<Rightarrow> rat \<Rightarrow> byte list \<Rightarrow> paint list" where
  "bars canvas dark barWidth x [] = []"
| "bars canvas dark barWidth x (d # dataArray) =
     (let barHeight = rat_of_nat (unat d) / 2;
          gradient = LinearGradient 0 (height canvas - barHeight) 0 (height canvas)
                       (gradient_stops dark)
      in FillRect gradient x (height canvas - barHeight) barWidth barHeight
           # bars canvas dark barWidth (x + (barWidth + 1)) dataArray)"

text \<open>The body of \<open>draw\<close> below its guard: the background, then the bars.\<close>

definition draw_frame :: "Canvas \<Rightarrow> nat \<Rightarrow> Frame \<Rightarrow> paint list" where
  "draw_frame canvas bufferLength fr =
     (let dataArray = map (magnitude fr) [0..<bufferLength];
          background = FillRect (Color (if isDark fr then ''#1e293b'' else ''#ffffff''))
                         0 0 (width canvas) (height canvas);
          barWidth = (width canvas / rat_of_nat bufferLength) * (5 / 2)
      in background # bars canvas (isDark fr) barWidth 0 dataArray)"

text \<open>
  \<open>draw\<close>: it returns at once unless the \<open>isRecording\<close> it has captured is true;
  otherwise it asks for the next animation frame and paints this one.
\<close>

definition draw :: "DrawClosure \<Rightarrow> Frame \<Rightarrow> Recorder \<Rightarrow> Recorder" where
  "draw cl fr r =
     (if \<not> draw_isRecording cl then r
      else r\<lparr>animationFrameRef := Some (next_handle r),
             next_handle := Suc (next_handle r),
             pendingFrame := Some cl,
             painted := painted r @ [draw_frame (draw_canvas cl) (draw_bufferLength cl) fr]\<rparr>)"

text \<open>
  \<open>drawVisualizer\<close>, with the \<open>isRecording\<close> of the render it was created in: that
  constant is what the \<open>draw\<close> it creates captures.
\<close>

definition drawVisualizer :: "bool \<Rightarrow> Frame \<Rightarrow> Recorder \<Rightarrow> Recorder" where
  "drawVisualizer isRecording' fr r =
     (case analyserRef r of
        None \<Rightarrow> r
      | Some analyser \<Rightarrow>
          (case canvasRef r of
             None \<Rightarrow> r
           | Some canvas \<Rightarrow>
               if \<not> has_2d_context canvas then r
               else draw \<lparr>draw_isRecording = isRecording', draw_canvas = canvas,
                          draw_bufferLength = frequencyBinCount analyser\<rparr> fr r))"

text \<open>The platform runs the callback that waits for an animation frame, if there is one.\<close>

definition animation_frame :: "Recorder \<Rightarrow> Frame \<Rightarrow> Recorder" where
  "animation_frame r fr =
     (case pendingFrame r of
        None \<Rightarrow> r
      | Some cl \<Rightarrow> draw cl fr (r\<lparr>pendingFrame := None\<rparr>))"

text \<open>
  \<open>startRecording\<close>, applied to the state of the render it was created in.  Its call of
  \<open>drawVisualizer\<close> is the one of that same render, so it passes on that render's
  \<open>isRecording\<close>, not the value just set.
\<close>

definition startRecording :: "Platform \<Rightarrow> Recorder \<Rightarrow> Recorder" where
  "startRecording plat r =
     (case getUserMedia plat of
        Inl err \<Rightarrow>
          r\<lparr>console_errors := console_errors r @ [err],
            recorder_alerts := recorder_alerts r @
              [''Could not access microphone. Please ensure permissions are granted.'']\<rparr>
      | Inr stream \<Rightarrow>
          let analyser = \<lparr>fftSize = 256, frequencyBinCount = 256 div 2\<rparr>;
              selected = selectedMimeType plat;
              opts = recorder_options selected;
              recorder = \<lparr>mimeType = recorder_mimeType plat opts, options = opts,
                          onstop_selectedMimeType = selected, onstop_stream = stream\<rparr>;
              r1 = r\<lparr>audioContextRef := Some Running,
                     analyserRef := Some analyser,
                     mediaRecorderRef := Some recorder,
                     chunksRef := [],
                     isRecording := True,
                     duration := 0,
                     timerRef := Some (next_handle r),
                     intervals := intervals r @ [next_handle r],
                     next_handle := Suc (next_handle r),
                     canvasRef := canvas_at_draw plat\<rparr>
          in drawVisualizer (isRecording r) (frame_at_draw plat) r1)"

text \<open>The \<open>ondataavailable\<close> handler, applied to \<open>e.data\<close>.\<close>

definition ondataavailable :: "Recorder \<Rightarrow> Blob \<Rightarrow> Recorder" where
  "ondataavailable r chunk =
     (if size_of chunk > 0 then r\<lparr>chunksRef := chunksRef r @ [chunk]\<rparr> else r)"

text \<open>
  The handles that \<open>setInterval\<close> and \<open>requestAnimationFrame\<close> return are positive;
  the tests \<open>if (timerRef.current)\<close> and \<open>if (animationFrameRef.current)\<close> take a
  missing handle and the handle 0 as false.
\<close>

text \<open>The \<open>onstop\<close> handler of a recorder, with what it has captured.\<close>

definition onstop :: "string \<Rightarrow> MediaStream \<Rightarrow> Recorder \<Rightarrow> Recorder" where
  "onstop selected stream r =
     (let fallback = (if selected = [] then ''audio/webm'' else selected);
          finalMimeType =
            (case mediaRecorderRef r of
               None \<Rightarrow> fallback
             | Some m \<Rightarrow> if MediaRecorder.mimeType m = [] then fallback
                         else MediaRecorder.mimeType m);
          new_blob = new_Blob (chunksRef r) finalMimeType;
          new_url = ObjectURL (next_handle r);
          r1 = r\<lparr>recorder_objectURLs := recorder_objectURLs r @ [new_url],
                 next_handle := Suc (next_handle r),
                 audioUrl := Some new_url,
                 onAudioReady_calls := onAudioReady_calls r @ [new_blob],
                 stopped_streams := stopped_streams r @ [stream]\<rparr>;
          r2 = (case animationFrameRef r1 of
                  None \<Rightarrow> r1
                | Some h \<Rightarrow> if h = 0 then r1 else r1\<lparr>pendingFrame := None\<rparr>)
      in case audioContextRef r2 of
           None \<Rightarrow> r2
         | Some st \<Rightarrow> if st = Closed then r2 else r2\<lparr>audioContextRef := Some Closed\<rparr>)"

text \<open>The platform fires \<open>stop\<close> on the recorder in \<open>mediaRecorderRef\<close>.\<close>

definition fire_stop :: "Recorder \<Rightarrow> Recorder" where
  "fire_stop r =
     (case mediaRecorderRef r of
        None \<Rightarrow> r
      | Some m \<Rightarrow> onstop (onstop_selectedMimeType m) (onstop_stream m) r)"

definition stopRecording :: "Recorder \<Rightarrow> Recorder" where
  "stopRecording r =
     (if mediaRecorderRef r \<noteq> None \<and> isRecording r
      then (let r1 = r\<lparr>stop_calls := Suc (stop_calls r), isRecording := False\<rparr> in
            case timerRef r1 of
              None \<Rightarrow> r1
            | Some h \<Rightarrow> if h = 0 then r1 else r1\<lparr>intervals := removeAll h (intervals r1)\<rparr>)
      else r)"

text \<open>One tick of the interval timer, and \<open>handleClear\<close> of the recorder.\<close>

definition tick :: "Recorder \<Rightarrow> Recorder" where
  "tick r = r\<lparr>duration := duration r + 1\<rparr>"

definition Recorder_handleClear :: "Recorder \<Rightarrow> Recorder" where
  "Recorder_handleClear r =
     (let r1 = r\<lparr>audioUrl := None, duration := 0, chunksRef := []\<rparr>;
          r2 = (case audioUrl r of
                  None \<Rightarrow> r1
                | Some u \<Rightarrow> r1\<lparr>recorder_objectURLs := removeAll u (recorder_objectURLs r1)\<rparr>)
      in r2\<lparr>recorder_onClear_calls := Suc (recorder_onClear_calls r2)\<rparr>)"

text \<open>The round button: \<open>onClick={isRecording ? stopRecording : startRecording}\<close>.\<close>

definition click_record_button :: "Platform \<Rightarrow> Recorder \<Rightarrow> Recorder" where
  "click_record_button plat r = (if isRecording r then stopRecording r else startRecording plat r)"

text \<open>
  A session: the button is clicked to start, chunks arrive, the button is clicked to
  stop, the last chunks arrive, and the recorder fires \<open>stop\<close>.
\<close>

definition start_then_stop :: "Platform \<Rightarrow> Blob list \<Rightarrow> Blob list \<Rightarrow> Recorder \<Rightarrow> Recorder" where
  "start_then_stop plat chunks1 chunks2 r =
     fire_stop
       (foldl ondataavailable
          (stopRecording (foldl ondataavailable (startRecording plat r) chunks1))
          chunks2)"

text \<open>
  The same platform as \<open>plat_ok\<close> below, but with a recorder that reports its type with
  capital letters: \<open>audio/MP4\<close>.
\<close>

definition plat_capitals :: Platform where
  "plat_capitals =
     \<lparr>getUserMedia = Inr (MediaStream 0),
      isTypeSupported = (\<lambda>t. t = ''audio/mp4'' \<or> t = ''audio/ogg''),
      recorder_mimeType = (\<lambda>opts. ''audio/MP4''),
      canvas_at_draw = Some \<lparr>width = 600, height = 128, has_2d_context = True\<rparr>,
      frame_at_draw = \<lparr>isDark = True, magnitude = (\<lambda>i. 255)\<rparr>\<rparr>"

text \<open>
  A platform on which everything works: the microphone is granted, only \<open>audio/mp4\<close>
  and \<open>audio/ogg\<close> are supported, the recorder reports the type it was asked for, the
  canvas of the markup (600 by 128) is in place, and every bin is at full magnitude.
\<close>

definition plat_ok :: Platform where
  "plat_ok =
     \<lparr>getUserMedia = Inr (MediaStream 0),
      isTypeSupported = (\<lambda>t. t = ''audio/mp4'' \<or> t = ''audio/ogg''),
      recorder_mimeType = (\<lambda>opts. case opts of None \<Rightarrow> [] | Some t \<Rightarrow> t),
      canvas_at_draw = Some \<lparr>width = 600, height = 128, has_2d_context = True\<rparr>,
      frame_at_draw = \<lparr>isDark = True, magnitude = (\<lambda>i. 255)\<rparr>\<rparr>"

text \<open>A platform that supports none of the five types and whose recorder reports none.\<close>

definition plat_bare :: Platform where
  "plat_bare =
     \<lparr>getUserMedia = Inr (MediaStream 0),
      isTypeSupported = (\<lambda>t. False),
      recorder_mimeType = (\<lambda>opts. []),
      canvas_at_draw = None,
      frame_at_draw = \<lparr>isDark = False, magnitude = (\<lambda>i. 0)\<rparr>\<rparr>"

text \<open>
  Two surroundings of the transcription client: one with no credential configured, one
  with a credential, an encoder that succeeds and a service that answers.
\<close>

definition env_no_key :: Env where
  "env_no_key =
     \<lparr>API_KEY = [], blobToBase64 = (\<lambda>b. Inr ''AQID''),
      generateContent = (\<lambda>p. Inr (Some ''## [00:00] Speaker 1: hello''))\<rparr>"

definition env_ok :: Env where
  "env_ok =
     \<lparr>API_KEY = ''k'', blobToBase64 = (\<lambda>b. Inr ''AQID''),
      generateContent = (\<lambda>p. Inr (Some ''## [00:00] Speaker 1: hello''))\<rparr>"

text \<open>A text file, as the file picker can deliver it.\<close>

definition notes_txt :: File where
  "notes_txt = \<lparr>bytes = [104, 105], type = ''text/plain'', name = ''notes.txt''\<rparr>"

section \<open>Theorems\<close>

subsection \<open>File intake\<close>

text \<open>
  The drop path: a first file whose type does not start with \<open>audio/\<close> is never handed
  to \<open>onFileSelected\<close>, and exactly one warning is shown.
\<close>

lemma handleDrop_rejects:
  "\<not> startsWith (Blob.type file) ''audio/'' \<Longrightarrow>
   onFileSelected_calls (handleDrop (file # rest) u) = onFileSelected_calls u \<and>
   selectedFile (handleDrop (file # rest) u) = selectedFile u \<and>
   alerts (handleDrop (file # rest) u) = alerts u @ [''Please upload a valid audio file.'']"
  by (simp add: handleDrop_def)

text \<open>
  C1 (file intake rejects every file whose declared type does not begin with \<open>audio/\<close>,
  on the drop path and on the picker path, and warns instead).  The picker path does
  not: \<open>handleChange\<close> applied to a file of type \<open>text/plain\<close> stores it, hands it to
  \<open>onFileSelected\<close> and shows no warning.
\<close>

theorem C1_handleChange_emits_text_plain:
  "\<not> startsWith (Blob.type notes_txt) ''audio/'' \<and>
   onFileSelected_calls (handleChange [notes_txt] FileUploader_init) = [notes_txt] \<and>
   selectedFile (handleChange [notes_txt] FileUploader_init) = Some notes_txt \<and>
   alerts (handleChange [notes_txt] FileUploader_init) = []"
  by (simp add: handleChange_def FileUploader_init_def notes_txt_def startsWith_def)

subsection \<open>Presentation shell\<close>

lemma App_loading_eq:
  "App_loading =
     \<lparr>activeTab = MICROPHONE, timestampInterval = 2, isDarkMode = True,
      audioState = \<lparr>blob = Some clip1, url = Some (ObjectURL 0), type = Some ''audio/wav''\<rparr>,
      transcription = \<lparr>isLoading = True, error = None, result = None\<rparr>,
      objectURLs = [ObjectURL 0], nextObjectURL = 1,
      transcribeAudio_calls = [(clip1, ''audio/wav'', 2)]\<rparr>"
  by (simp add: App_loading_def run_def App_init_def handleAudioReady_def
      createObjectURL_def click_submit_def submit_disabled_def handleTranscribe_def clip1_def)

text \<open>
  C2, as stated (\<open>handleTranscribe\<close> invoked while a request is in flight starts no
  request and changes nothing), fails: with a clip present and \<open>isLoading\<close> true,
  \<open>handleTranscribe\<close> calls \<open>transcribeAudio\<close> a second time.
\<close>

theorem C2_handleTranscribe_while_loading:
  "isLoading (transcription App_loading) \<and>
   handleTranscribe App_loading \<noteq> App_loading \<and>
   transcribeAudio_calls App_loading = [(clip1, ''audio/wav'', 2)] \<and>
   transcribeAudio_calls (handleTranscribe App_loading) =
     [(clip1, ''audio/wav'', 2), (clip1, ''audio/wav'', 2)]"
  by (simp add: App_loading_eq handleTranscribe_def clip1_def)

text \<open>
  C2, amended: \<open>handleTranscribe\<close> invoked with no audio present changes nothing (so it
  starts no request), whatever the button's state; and a click on the submit button
  changes nothing when no audio is present or a request is in flight, because the
  button is then disabled.
\<close>

theorem C2_submit_guards:
  "(blob (audioState a) = None \<longrightarrow> handleTranscribe a = a) \<and>
   (blob (audioState a) = None \<or> isLoading (transcription a) \<longrightarrow> click_submit a = a)"
  by (simp add: handleTranscribe_def click_submit_def submit_disabled_def)

theorem C2_submit_guards_witness:
  "blob (audioState App_init) = None \<and> handleTranscribe App_init = App_init \<and>
   click_submit App_init = App_init \<and>
   isLoading (transcription App_loading) \<and> click_submit App_loading = App_loading"
  using C2_submit_guards [of App_init] C2_submit_guards [of App_loading]
  by (simp add: App_init_def App_loading_eq)

text \<open>Every event keeps the invariant; so every run from the initial state has it.\<close>

lemma step_at_most_one:
  "at_most_one (transcription a) \<Longrightarrow> at_most_one (transcription (step a e))"
  by (cases e)
     (auto simp: at_most_one_def handleAudioReady_def createObjectURL_def handleClear_def
        revokeObjectURL_def selectTab_def click_submit_def handleTranscribe_def
        handleTranscribe_settled_def toggleTheme_def Let_def
        split: option.splits sum.splits)

lemma foldl_step_at_most_one:
  "at_most_one (transcription a) \<Longrightarrow> at_most_one (transcription (foldl step a es))"
  by (induction es arbitrary: a) (simp_all add: step_at_most_one)

lemma run_at_most_one: "at_most_one (transcription (run es))"
  unfolding run_def
  by (rule foldl_step_at_most_one) (simp add: App_init_def at_most_one_def)

lemma both_null_handleAudioReady: "both_null (transcription (handleAudioReady b a))"
  by (simp add: both_null_def handleAudioReady_def createObjectURL_def)

lemma both_null_handleClear: "both_null (transcription (handleClear a))"
  by (simp add: both_null_def handleClear_def Let_def)

lemma both_null_selectTab: "both_null (transcription (selectTab tab a))"
  by (simp add: selectTab_def both_null_handleClear)

lemma both_null_handleTranscribe:
  "transcribeAudio_calls (handleTranscribe a) \<noteq> transcribeAudio_calls a \<Longrightarrow>
   both_null (transcription (handleTranscribe a))"
  by (auto simp: both_null_def handleTranscribe_def split: option.splits if_splits)

lemma at_most_one_settled: "at_most_one (transcription (handleTranscribe_settled outcome a))"
  by (cases outcome) (simp_all add: at_most_one_def handleTranscribe_settled_def)

text \<open>
  C3: in every state that a sequence of events reaches from the initial state, at most
  one of \<open>error\<close> and \<open>result\<close> is set; both are null right after new audio is set,
  after a clear, after a tab is selected, and after \<open>handleTranscribe\<close> has started a
  request; and a settling request sets at most one of them, from any state.
\<close>

theorem C3_error_result_exclusive:
  "at_most_one (transcription (run es)) \<and>
   both_null (transcription (handleAudioReady b a)) \<and>
   both_null (transcription (handleClear a)) \<and>
   both_null (transcription (selectTab tab a)) \<and>
   (transcribeAudio_calls (handleTranscribe a) \<noteq> transcribeAudio_calls a \<longrightarrow>
      both_null (transcription (handleTranscribe a))) \<and>
   at_most_one (transcription (handleTranscribe_settled outcome a))"
  using run_at_most_one both_null_handleAudioReady both_null_handleClear
    both_null_selectTab both_null_handleTranscribe at_most_one_settled
  by blast

theorem C3_error_result_exclusive_witness:
  "transcribeAudio_calls (handleTranscribe (run [AudioReady clip1])) \<noteq>
     transcribeAudio_calls (run [AudioReady clip1]) \<and>
   both_null (transcription (handleTranscribe (run [AudioReady clip1]))) \<and>
   at_most_one (transcription (run [AudioReady clip1, ClickSubmit, Settled (Inr ''hello'')])) \<and>
   result (transcription (run [AudioReady clip1, ClickSubmit, Settled (Inr ''hello'')])) =
     Some ''hello''"
  using C3_error_result_exclusive
    [of "[AudioReady clip1, ClickSubmit, Settled (Inr ''hello'')]" clip1
        "run [AudioReady clip1]" MICROPHONE "Inr ''hello''"]
  by (simp add: run_def App_init_def handleAudioReady_def createObjectURL_def
      click_submit_def submit_disabled_def handleTranscribe_def handleTranscribe_settled_def
      clip1_def both_null_def at_most_one_def)

text \<open>
  C10: audio set twice with no clear in between: the object URL made for the first
  blob is still alive and is no longer the one in \<open>audioState\<close>, which holds the
  second blob.  No handler but \<open>handleClear\<close> takes an object URL away, and
  \<open>handleClear\<close> takes away exactly the one in \<open>audioState\<close>.
\<close>

theorem C10_superseded_url_stays_alive:
  "(case url (audioState (handleAudioReady b1 a)) of
      None \<Rightarrow> False
    | Some u1 \<Rightarrow>
        u1 \<in> set (objectURLs (handleAudioReady b2 (handleAudioReady b1 a))) \<and>
        url (audioState (handleAudioReady b2 (handleAudioReady b1 a))) \<noteq> Some u1 \<and>
        blob (audioState (handleAudioReady b2 (handleAudioReady b1 a))) = Some b2) \<and>
   set (objectURLs a) \<subseteq> set (objectURLs (handleAudioReady b a)) \<and>
   objectURLs (handleTranscribe a) = objectURLs a \<and>
   objectURLs (click_submit a) = objectURLs a \<and>
   objectURLs (handleTranscribe_settled outcome a) = objectURLs a \<and>
   objectURLs (toggleTheme a) = objectURLs a \<and>
   objectURLs (handleClear a) =
     (case url (audioState a) of
        None \<Rightarrow> objectURLs a
      | Some u \<Rightarrow> removeAll u (objectURLs a))"
  by (auto simp: handleAudioReady_def createObjectURL_def handleTranscribe_def
      click_submit_def handleTranscribe_settled_def toggleTheme_def handleClear_def
      revokeObjectURL_def Let_def
      split: option.splits sum.splits)

subsection \<open>Transcription client\<close>

text \<open>
  C4: with no credential configured, \<open>transcribeAudio\<close> rejects with the error about
  the missing key and does nothing else: it creates no client, encodes nothing and sends
  nothing, whatever the blob, the type and the interval.
\<close>

theorem C4_missing_key_rejects_first:
  "API_KEY env = [] \<Longrightarrow>
   transcribeAudio env audioBlob mimeType' intervalMinutes =
     (Inl (Error ''API Key is missing. Please ensure process.env.API_KEY is set.''), [])"
  by (simp add: transcribeAudio_def)

theorem C4_missing_key_rejects_first_witness:
  "API_KEY env_no_key = [] \<and>
   transcribeAudio env_no_key clip1 ''audio/wav'' 2 =
     (Inl (Error ''API Key is missing. Please ensure process.env.API_KEY is set.''), [])"
  using C4_missing_key_rejects_first [of env_no_key clip1 "''audio/wav''" 2]
  by (simp add: env_no_key_def)

text \<open>
  C9: when a credential is configured and the blob has been encoded, exactly one
  request is sent, and its inline part carries \<open>audio/mp3\<close> if the given type is the
  empty string and the given type otherwise.
\<close>

theorem C9_empty_type_sent_as_mp3:
  "API_KEY env \<noteq> [] \<Longrightarrow> blobToBase64 env audioBlob = Inr base64Data \<Longrightarrow>
   sent (snd (transcribeAudio env audioBlob mimeType' intervalMinutes)) =
     [\<lparr>model = ''gemini-2.5-flash'',
       inlineData = \<lparr>InlineData.mimeType = (if mimeType' = [] then ''audio/mp3'' else mimeType'),
                     data = base64Data\<rparr>,
       text_part = instruction intervalMinutes\<rparr>]"
  by (simp add: transcribeAudio_def Let_def split: sum.splits option.splits)

theorem C9_empty_type_sent_as_mp3_witness:
  "API_KEY env_ok \<noteq> [] \<and> blobToBase64 env_ok clip1 = Inr ''AQID'' \<and>
   map (\<lambda>p. InlineData.mimeType (inlineData p)) (sent (snd (transcribeAudio env_ok clip1 [] 2))) =
     [''audio/mp3''] \<and>
   map (\<lambda>p. InlineData.mimeType (inlineData p)) (sent (snd (transcribeAudio env_ok clip1 ''audio/wav'' 2))) =
     [''audio/wav'']"
  using C9_empty_type_sent_as_mp3 [of env_ok clip1 "''AQID''" "[]" 2]
    C9_empty_type_sent_as_mp3 [of env_ok clip1 "''AQID''" "''audio/wav''" 2]
  by (simp add: env_ok_def)

text \<open>The instruction, read back: its header lines, whatever the interval prints as.\<close>

lemma toString_digit:
  "0 \<le> n \<Longrightarrow> n \<le> 9 \<Longrightarrow> toString n = [''0123456789'' ! nat n]"
  by (simp add: toString_def digits.simps)

lemma toString_10: "toString 10 = ''10''"
  by (simp add: toString_def digits.simps)

lemma lines_from_append:
  "CHR 0x0A \<notin> set ds \<Longrightarrow> lines_from cur (ds @ rest) = lines_from (cur @ ds) rest"
  by (induction ds arbitrary: cur) auto

lemma header_lines_instruction:
  assumes "CHR 0x0A \<notin> set (toString n)"
  shows "header_lines (instruction n) = [''## [00:00]'', ''## [0'' @ toString n @ '':00]'']"
  using assms
  by (simp add: header_lines_def lines_def instruction_def nl_def indent_def quoted_def
      startsWith_def numeral_eq_Suc lines_from_append)

text \<open>
  For every interval the instruction contains the two literal headers, and for the
  intervals 1 to 9 both example headers are in \<open>MM:SS\<close> form.
\<close>

lemma instruction_contains_MM_SS: "sublist ''## [MM:SS]'' (instruction n)"
proof -
  have "instruction n =
    (''Please transcribe the following audio. '' @ nl @ indent @ nl @
     indent @ ''IMPORTANT: You must structure the transcript by inserting timestamps approximately every ''
       @ toString n @ '' minutes (or at logical breaks near that interval).'' @ nl @
     indent @ nl @
     indent @ ''Format the timestamps strictly as a header on a new line: '' @ [CHR 0x22])
    @ ''## [MM:SS]'' @
    ([CHR 0x22] @ ''.'' @ nl @
     indent @ ''Start with '' @ quoted ''## [00:00]'' @ ''.'' @ nl @
     indent @ nl @
     indent @ ''Example output format:'' @ nl @
     indent @ ''## [00:00]'' @ nl @
     indent @ ''(Text for the first segment...)'' @ nl @
     indent @ nl @
     indent @ ''## [0'' @ toString n @ '':00]'' @ nl @
     indent @ ''(Text for the next segment...)'' @ nl @
     indent @ nl @
     indent @ ''If there are distinct speakers, label them as Speaker 1, Speaker 2, etc. Format the text with clear paragraph breaks.'')"
    by (simp add: instruction_def quoted_def)
  then show ?thesis
    by (metis sublist_appendI)
qed

lemma instruction_contains_00_00: "sublist ''## [00:00]'' (instruction n)"
proof -
  have "instruction n =
    (''Please transcribe the following audio. '' @ nl @ indent @ nl @
     indent @ ''IMPORTANT: You must structure the transcript by inserting timestamps approximately every ''
       @ toString n @ '' minutes (or at logical breaks near that interval).'' @ nl @
     indent @ nl @
     indent @ ''Format the timestamps strictly as a header on a new line: '' @ quoted ''## [MM:SS]'' @ ''.'' @ nl @
     indent @ ''Start with '' @ [CHR 0x22])
    @ ''## [00:00]'' @
    ([CHR 0x22] @ ''.'' @ nl @
     indent @ nl @
     indent @ ''Example output format:'' @ nl @
     indent @ ''## [00:00]'' @ nl @
     indent @ ''(Text for the first segment...)'' @ nl @
     indent @ nl @
     indent @ ''## [0'' @ toString n @ '':00]'' @ nl @
     indent @ ''(Text for the next segment...)'' @ nl @
     indent @ nl @
     indent @ ''If there are distinct speakers, label them as Speaker 1, Speaker 2, etc. Format the text with clear paragraph breaks.'')"
    by (simp add: instruction_def quoted_def)
  then show ?thesis
    by (metis sublist_appendI)
qed

lemma example_headers_MM_SS_up_to_9:
  assumes "1 \<le> n" and "n \<le> 9"
  shows "list_all is_MM_SS_header (header_lines (instruction n))"
proof -
  have d: "toString n = [''0123456789'' ! nat n]"
    using assms by (simp add: toString_digit)
  have m: "''0123456789'' ! nat n \<in> set ''0123456789''"
    using assms by (intro nth_mem) simp
  then have "CHR 0x0A \<notin> set (toString n)"
    unfolding d by auto
  from header_lines_instruction [OF this] m show ?thesis
    by (simp add: d is_digit_def)
qed

text \<open>
  C7 (for every interval from 1 to 10 the instruction's example headers are in \<open>MM:SS\<close>
  form).  At the interval 10, which the slider allows, the second example header of the
  instruction is \<open>## [010:00]\<close>: the template writes a fixed \<open>0\<close> before the number.
\<close>

theorem C7_example_header_at_10:
  "header_lines (instruction 10) = [''## [00:00]'', ''## [010:00]''] \<and>
   \<not> list_all is_MM_SS_header (header_lines (instruction 10))"
  using header_lines_instruction [of 10]
  by (simp add: toString_10)

subsection \<open>Capture engine\<close>

lemma recorder_options_find:
  "[] \<notin> set ts \<Longrightarrow> recorder_options (select_loop P ts []) = List.find P ts"
  by (induction ts) (auto simp: recorder_options_def)

lemma startRecording_recorder:
  "getUserMedia plat = Inr stream \<Longrightarrow>
   mediaRecorderRef (startRecording plat r) =
     Some \<lparr>mimeType = recorder_mimeType plat (recorder_options (selectedMimeType plat)),
           options = recorder_options (selectedMimeType plat),
           onstop_selectedMimeType = selectedMimeType plat, onstop_stream = stream\<rparr>"
  by (simp add: startRecording_def Let_def drawVisualizer_def draw_def split: option.splits)

lemma startRecording_chunks:
  "getUserMedia plat = Inr stream \<Longrightarrow> chunksRef (startRecording plat r) = []"
  by (simp add: startRecording_def Let_def drawVisualizer_def draw_def split: option.splits)

lemma startRecording_calls:
  "onAudioReady_calls (startRecording plat r) = onAudioReady_calls r"
  by (simp add: startRecording_def Let_def drawVisualizer_def draw_def
      split: option.splits sum.splits)

lemma startRecording_isRecording:
  "getUserMedia plat = Inr stream \<Longrightarrow>
   isRecording (startRecording plat r) \<and> stop_calls (startRecording plat r) = stop_calls r"
  by (simp add: startRecording_def Let_def drawVisualizer_def draw_def split: option.splits)

lemma stopRecording_keeps:
  "mediaRecorderRef (stopRecording r) = mediaRecorderRef r"
  "chunksRef (stopRecording r) = chunksRef r"
  "onAudioReady_calls (stopRecording r) = onAudioReady_calls r"
  by (simp_all add: stopRecording_def Let_def split: option.splits)

lemma stopRecording_stops:
  "mediaRecorderRef r = Some m \<Longrightarrow> isRecording r \<Longrightarrow>
   \<not> isRecording (stopRecording r) \<and> stop_calls (stopRecording r) = Suc (stop_calls r)"
  by (simp add: stopRecording_def Let_def split: option.splits)

lemma foldl_ondataavailable:
  "chunksRef (foldl ondataavailable r cs) = chunksRef r @ filter (\<lambda>c. 0 < size_of c) cs"
  "mediaRecorderRef (foldl ondataavailable r cs) = mediaRecorderRef r"
  "onAudioReady_calls (foldl ondataavailable r cs) = onAudioReady_calls r"
  "isRecording (foldl ondataavailable r cs) = isRecording r"
  "stop_calls (foldl ondataavailable r cs) = stop_calls r"
  by (induction cs arbitrary: r) (simp_all add: ondataavailable_def)

lemma concat_nonempty_chunks:
  "concat (map bytes (filter (\<lambda>c. 0 < size_of c) cs)) = concat (map bytes cs)"
  by (induction cs) (simp_all add: size_of_def)

lemma fire_stop_calls:
  "mediaRecorderRef r = Some m \<Longrightarrow>
   onAudioReady_calls (fire_stop r) =
     onAudioReady_calls r @
       [new_Blob (chunksRef r)
          (if MediaRecorder.mimeType m \<noteq> [] then MediaRecorder.mimeType m
           else if onstop_selectedMimeType m \<noteq> [] then onstop_selectedMimeType m
           else ''audio/webm'')]"
  by (simp add: fire_stop_def onstop_def Let_def split: option.splits)

lemma fire_stop_keeps:
  "isRecording (fire_stop r) = isRecording r"
  "stop_calls (fire_stop r) = stop_calls r"
  by (simp_all add: fire_stop_def onstop_def Let_def split: option.splits)

text \<open>The types that the constructor keeps; the five of the list are among them.\<close>

lemma ascii_lowercase_id:
  "c \<notin> set ''ABCDEFGHIJKLMNOPQRSTUVWXYZ'' \<Longrightarrow> ascii_lowercase c = c"
  by (simp add: ascii_lowercase_def)

lemma plain_type_printable: "plain_type t \<Longrightarrow> list_all in_printable_range t"
  unfolding plain_type_def by (induction t) simp_all

lemma plain_type_lowercase: "plain_type t \<Longrightarrow> map ascii_lowercase t = t"
  unfolding plain_type_def by (induction t) (simp_all add: ascii_lowercase_id del: set_simps)

lemma normalize_plain_type: "plain_type t \<Longrightarrow> normalize_type t = t"
  by (simp add: normalize_type_def plain_type_printable plain_type_lowercase)

lemma select_loop_plain:
  "list_all plain_type ts \<Longrightarrow> plain_type (select_loop P ts [])"
  by (induction ts) (simp_all add: plain_type_def)

lemma selectedMimeType_plain: "plain_type (selectedMimeType plat)"
  unfolding selectedMimeType_def
  by (rule select_loop_plain) (simp add: mimeTypes_def plain_type_def in_printable_range_def)

lemma audio_webm_plain: "plain_type ''audio/webm''"
  by (simp add: plain_type_def in_printable_range_def)

text \<open>
  A session on any platform: exactly one blob is handed to \<open>onAudioReady\<close>; its bytes
  are those of the chunks in order, and its type is what the constructor makes of the
  recorder's \<open>mimeType\<close> if that is not empty, else of the selected type if one was
  selected, else of \<open>audio/webm\<close>.  The recorder's \<open>stop()\<close> has been called once.
\<close>

lemma start_then_stop_emits:
  assumes g: "getUserMedia plat = Inr stream"
  shows "onAudioReady_calls (start_then_stop plat chunks1 chunks2 r) =
     onAudioReady_calls r @
       [\<lparr>bytes = concat (map bytes (chunks1 @ chunks2)),
         type = normalize_type
                  (if recorder_mimeType plat (recorder_options (selectedMimeType plat)) \<noteq> []
                   then recorder_mimeType plat (recorder_options (selectedMimeType plat))
                   else if selectedMimeType plat \<noteq> [] then selectedMimeType plat
                   else ''audio/webm'')\<rparr>]"
proof -
  let ?r4 = "foldl ondataavailable
          (stopRecording (foldl ondataavailable (startRecording plat r) chunks1)) chunks2"
  have m: "mediaRecorderRef ?r4 =
      Some \<lparr>mimeType = recorder_mimeType plat (recorder_options (selectedMimeType plat)),
            options = recorder_options (selectedMimeType plat),
            onstop_selectedMimeType = selectedMimeType plat, onstop_stream = stream\<rparr>"
    by (simp add: foldl_ondataavailable stopRecording_keeps startRecording_recorder [OF g])
  have c: "chunksRef ?r4 = filter (\<lambda>c. 0 < size_of c) (chunks1 @ chunks2)"
    by (simp add: foldl_ondataavailable stopRecording_keeps startRecording_chunks [OF g])
  have a: "onAudioReady_calls ?r4 = onAudioReady_calls r"
    by (simp add: foldl_ondataavailable stopRecording_keeps startRecording_calls)
  show ?thesis
    unfolding start_then_stop_def fire_stop_calls [OF m] c a
    by (simp add: new_Blob_def concat_nonempty_chunks del: filter_append map_append)
qed

lemma start_then_stop_stops:
  assumes g: "getUserMedia plat = Inr stream"
  shows "\<not> isRecording (start_then_stop plat chunks1 chunks2 r) \<and>
     stop_calls (start_then_stop plat chunks1 chunks2 r) = Suc (stop_calls r)"
proof -
  let ?r2 = "foldl ondataavailable (startRecording plat r) chunks1"
  have m: "mediaRecorderRef ?r2 =
      Some \<lparr>mimeType = recorder_mimeType plat (recorder_options (selectedMimeType plat)),
            options = recorder_options (selectedMimeType plat),
            onstop_selectedMimeType = selectedMimeType plat, onstop_stream = stream\<rparr>"
    by (simp add: foldl_ondataavailable startRecording_recorder [OF g])
  have i: "isRecording ?r2" and n: "stop_calls ?r2 = stop_calls r"
    using startRecording_isRecording [OF g, of r] by (simp_all add: foldl_ondataavailable)
  from stopRecording_stops [OF m i] n show ?thesis
    by (simp add: start_then_stop_def fire_stop_keeps foldl_ondataavailable)
qed

text \<open>With a recorder that reports \<open>audio/MP4\<close>, the blob's type is \<open>audio/mp4\<close>.\<close>

lemma start_then_stop_plat_capitals:
  "onAudioReady_calls (start_then_stop plat_capitals [clip1] [clip2] Recorder_init) =
     [\<lparr>bytes = [1, 2, 3, 4, 5], type = ''audio/mp4''\<rparr>]"
  using start_then_stop_emits [of plat_capitals "MediaStream 0" "[clip1]" "[clip2]" Recorder_init]
  by (simp add: plat_capitals_def clip1_def clip2_def Recorder_init_def normalize_type_def
      in_printable_range_def ascii_lowercase_def)

text \<open>
  C5: when the microphone is granted, the recorder is created with the first of the five
  types, in the order of the list, that \<open>isTypeSupported\<close> accepts, and with no options
  at all when it accepts none of them.
\<close>

theorem C5_first_supported_type:
  "getUserMedia plat = Inr stream \<Longrightarrow>
   (case mediaRecorderRef (startRecording plat r) of
      None \<Rightarrow> False
    | Some m \<Rightarrow>
        options m =
          List.find (isTypeSupported plat)
            [''audio/webm;codecs=opus'', ''audio/webm'', ''audio/mp4'', ''audio/aac'',
             ''audio/ogg''])"
  using recorder_options_find [of mimeTypes "isTypeSupported plat"]
  by (simp add: startRecording_recorder selectedMimeType_def mimeTypes_def)

theorem C5_first_supported_type_witness:
  "getUserMedia plat_ok = Inr (MediaStream 0) \<and>
   map_option options (mediaRecorderRef (startRecording plat_ok Recorder_init)) =
     Some (Some ''audio/mp4'') \<and>
   getUserMedia plat_bare = Inr (MediaStream 0) \<and>
   map_option options (mediaRecorderRef (startRecording plat_bare Recorder_init)) = Some None"
  using C5_first_supported_type [of plat_ok "MediaStream 0" Recorder_init]
    C5_first_supported_type [of plat_bare "MediaStream 0" Recorder_init]
  by (auto simp add: plat_ok_def plat_bare_def split: option.splits)

text \<open>
  C6: in every session (start, chunks, stop, last chunks, the recorder's \<open>stop\<close>) on a
  platform whose recorder reports a media type in lower-case printable ASCII, or none,
  exactly one blob is handed to \<open>onAudioReady\<close>; its bytes are those of the chunks in
  order, and its type is the recorder's \<open>mimeType\<close> if that is not empty, else the
  selected type if one was selected, else \<open>audio/webm\<close>; that type is never empty.
  The recording has then stopped, after one call of the recorder's \<open>stop()\<close>.
\<close>

theorem C6_stop_emits_typed_concatenation:
  assumes g: "getUserMedia plat = Inr stream"
    and p: "plain_type (recorder_mimeType plat (recorder_options (selectedMimeType plat)))"
  shows "onAudioReady_calls (start_then_stop plat chunks1 chunks2 r) =
     onAudioReady_calls r @
       [\<lparr>bytes = concat (map bytes (chunks1 @ chunks2)),
         type = (if recorder_mimeType plat (recorder_options (selectedMimeType plat)) \<noteq> []
                 then recorder_mimeType plat (recorder_options (selectedMimeType plat))
                 else if selectedMimeType plat \<noteq> [] then selectedMimeType plat
                 else ''audio/webm'')\<rparr>] \<and>
   (if recorder_mimeType plat (recorder_options (selectedMimeType plat)) \<noteq> []
    then recorder_mimeType plat (recorder_options (selectedMimeType plat))
    else if selectedMimeType plat \<noteq> [] then selectedMimeType plat
    else ''audio/webm'') \<noteq> [] \<and>
   \<not> isRecording (start_then_stop plat chunks1 chunks2 r) \<and>
   stop_calls (start_then_stop plat chunks1 chunks2 r) = Suc (stop_calls r)"
proof -
  let ?final = "if recorder_mimeType plat (recorder_options (selectedMimeType plat)) \<noteq> []
    then recorder_mimeType plat (recorder_options (selectedMimeType plat))
    else if selectedMimeType plat \<noteq> [] then selectedMimeType plat
    else ''audio/webm''"
  have "plain_type ?final"
    using p selectedMimeType_plain [of plat] audio_webm_plain by simp
  then have n: "normalize_type ?final = ?final"
    by (rule normalize_plain_type)
  have e: "?final \<noteq> []"
    by simp
  from start_then_stop_emits [OF g, of chunks1 chunks2 r] start_then_stop_stops [OF g, of chunks1 chunks2 r] n e
  show ?thesis
    by simp
qed

theorem C6_stop_emits_typed_concatenation_witness:
  "getUserMedia plat_bare = Inr (MediaStream 0) \<and>
   plain_type (recorder_mimeType plat_bare (recorder_options (selectedMimeType plat_bare))) \<and>
   onAudioReady_calls (start_then_stop plat_bare [clip1] [clip2] Recorder_init) =
     [\<lparr>bytes = [1, 2, 3, 4, 5], type = ''audio/webm''\<rparr>] \<and>
   getUserMedia plat_ok = Inr (MediaStream 0) \<and>
   plain_type (recorder_mimeType plat_ok (recorder_options (selectedMimeType plat_ok))) \<and>
   onAudioReady_calls (start_then_stop plat_ok [clip1] [clip2] Recorder_init) =
     [\<lparr>bytes = [1, 2, 3, 4, 5], type = ''audio/mp4''\<rparr>] \<and>
   stop_calls (start_then_stop plat_ok [clip1] [clip2] Recorder_init) = 1"
  using C6_stop_emits_typed_concatenation
      [of plat_bare "MediaStream 0" "[clip1]" "[clip2]" Recorder_init]
    C6_stop_emits_typed_concatenation
      [of plat_ok "MediaStream 0" "[clip1]" "[clip2]" Recorder_init]
  by (simp add: plat_bare_def plat_ok_def selectedMimeType_def mimeTypes_def
      recorder_options_def clip1_def clip2_def Recorder_init_def plain_type_def
      in_printable_range_def)

subsection \<open>Visualizer\<close>

text \<open>
  What \<open>draw\<close> does when the \<open>isRecording\<close> it has captured is true: it paints the
  background and one bar for each bin, the bar of bin \<open>i\<close> half as high as the bin's
  magnitude, and asks for the next frame.
\<close>

lemma bars_length: "length (bars c dark bw x ds) = length ds"
  by (induction ds arbitrary: x) (simp_all add: Let_def)

lemma bars_nth:
  "i < length ds \<Longrightarrow>
   bars c dark bw x ds ! i =
     FillRect
       (LinearGradient 0 (height c - rat_of_nat (unat (ds ! i)) / 2) 0 (height c)
          (gradient_stops dark))
       (x + rat_of_nat i * (bw + 1)) (height c - rat_of_nat (unat (ds ! i)) / 2) bw
       (rat_of_nat (unat (ds ! i)) / 2)"
proof (induction ds arbitrary: x i)
  case Nil
  then show ?case by simp
next
  case (Cons d ds)
  show ?case
  proof (cases i)
    case 0
    then show ?thesis by (simp add: Let_def)
  next
    case (Suc j)
    with Cons.prems have "j < length ds" by simp
    from Cons.IH [OF this, of "x + (bw + 1)"] Suc show ?thesis
      by (simp add: Let_def algebra_simps)
  qed
qed

lemma draw_frame_length: "length (draw_frame c n fr) = Suc n"
  by (simp add: draw_frame_def Let_def bars_length)

lemma draw_when_captured_true:
  "draw_isRecording cl \<Longrightarrow>
   painted (draw cl fr r) =
     painted r @ [draw_frame (draw_canvas cl) (draw_bufferLength cl) fr] \<and>
   pendingFrame (draw cl fr r) = Some cl"
  by (simp add: draw_def)

text \<open>
  But the button calls \<open>startRecording\<close> only from a render in which \<open>isRecording\<close> is
  false, and that is the value \<open>draw\<close> captures: a click never paints and never leaves a
  callback waiting, on any platform and in any state.
\<close>

lemma click_paints_nothing:
  "painted (click_record_button plat r) = painted r \<and>
   pendingFrame (click_record_button plat r) = pendingFrame r"
  by (auto simp: click_record_button_def stopRecording_def startRecording_def Let_def
      drawVisualizer_def draw_def split: sum.splits option.splits)

lemma click_record_button_plat_ok:
  "click_record_button plat_ok Recorder_init =
     Recorder_init
       \<lparr>audioContextRef := Some Running,
        analyserRef := Some \<lparr>fftSize = 256, frequencyBinCount = 128\<rparr>,
        mediaRecorderRef :=
          Some \<lparr>mimeType = ''audio/mp4'', options = Some ''audio/mp4'',
                onstop_selectedMimeType = ''audio/mp4'', onstop_stream = MediaStream 0\<rparr>,
        isRecording := True,
        timerRef := Some 1, intervals := [1], next_handle := 2,
        canvasRef := Some \<lparr>width = 600, height = 128, has_2d_context = True\<rparr>\<rparr>"
  by (simp add: click_record_button_def startRecording_def Let_def drawVisualizer_def
      draw_def plat_ok_def Recorder_init_def selectedMimeType_def mimeTypes_def
      recorder_options_def)

text \<open>
  C8 (on each animation frame while recording, one bar per bin is painted).  After a
  click on the record button in the initial state, with the microphone granted, the
  canvas in place and every bin at magnitude 255, the engine is recording, and nothing
  has been painted, no callback waits for a frame, and three animation frames later
  still nothing has been painted.
\<close>

theorem C8_nothing_painted_while_recording:
  "isRecording (click_record_button plat_ok Recorder_init) \<and>
   canvasRef (click_record_button plat_ok Recorder_init) =
     Some \<lparr>width = 600, height = 128, has_2d_context = True\<rparr> \<and>
   analyserRef (click_record_button plat_ok Recorder_init) =
     Some \<lparr>fftSize = 256, frequencyBinCount = 128\<rparr> \<and>
   painted (click_record_button plat_ok Recorder_init) = [] \<and>
   pendingFrame (click_record_button plat_ok Recorder_init) = None \<and>
   painted (foldl animation_frame (click_record_button plat_ok Recorder_init)
      [frame_at_draw plat_ok, frame_at_draw plat_ok, frame_at_draw plat_ok]) = []"
  unfolding click_record_button_plat_ok
  by (simp add: animation_frame_def Recorder_init_def)

end
